theory Spec2Isabelle
  imports Main
begin

section \<open>JavaScript values seen by the tunnel launcher\<close>

text \<open>
  The launcher (\<^verbatim>\<open>launch\<close>, source lines 24 to 59) receives text payloads, hands each to
  \<^verbatim>\<open>JSON.parse\<close> and reads three properties of the result. A parsed value is one of the
  six JSON shapes. An object is the association list of its own properties. Numbers
  are never computed with by the launcher, so their type is left open as \<open>'n\<close>
  (its equality stands for the comparison \<^verbatim>\<open>SameValueZero\<close> of JavaScript numbers).
  The JavaScript value \<^verbatim>\<open>undefined\<close> is \<open>None\<close>.
\<close>

datatype 'n json =
    JNull
  | JBool bool
  | JNum 'n
  | JStr string
  | JArr "'n json list"
  | JObj "(string \<times> 'n json) list"

type_synonym 'n jsval = "'n json option"

text \<open>
  What can be thrown inside the message handler: \<^verbatim>\<open>JSON.parse\<close> throws a SyntaxError
  on text that is not JSON, reading a property of \<^verbatim>\<open>null\<close> throws a TypeError, and
  \<^verbatim>\<open>invariant(x)\<close> (Node's \<^verbatim>\<open>assert\<close>) throws an AssertionError on a falsy \<^verbatim>\<open>x\<close>.
\<close>

datatype error = SyntaxError | TypeError | AssertionError

text \<open>
  Property read \<^verbatim>\<open>message.name\<close>, for the names the launcher reads
  (\<^verbatim>\<open>event\<close>, \<^verbatim>\<open>tunnelId\<close>, \<^verbatim>\<open>remotePort\<close>: none of them is defined on a prototype
  object). On \<^verbatim>\<open>null\<close> the read throws; on an object it gives the own property or
  \<^verbatim>\<open>undefined\<close>; on a boolean, number, string or array it gives \<^verbatim>\<open>undefined\<close>.
\<close>

fun getProp :: "'n json \<Rightarrow> string \<Rightarrow> error + 'n jsval" where
  "getProp JNull name = Inl TypeError"
| "getProp (JObj props) name = Inr (map_of props name)"
| "getProp (JBool b) name = Inr None"
| "getProp (JNum n) name = Inr None"
| "getProp (JStr s) name = Inr None"
| "getProp (JArr vs) name = Inr None"

section \<open>The Map from tunnel id to SocketManager\<close>

text \<open>
  A JavaScript \<^verbatim>\<open>Map\<close> keeps its entries in insertion order and compares keys with
  \<^verbatim>\<open>SameValueZero\<close>: primitives by value, objects and arrays by identity. Every key the
  launcher passes comes out of the \<^verbatim>\<open>JSON.parse\<close> call of the message at hand, so a key
  that is an object or an array is a new object, identical to no key already stored.
\<close>

definition isObject :: "'n jsval \<Rightarrow> bool" where
  "isObject v = (case v of Some (JArr vs) \<Rightarrow> True | Some (JObj props) \<Rightarrow> True | _ \<Rightarrow> False)"

definition sameValueZero :: "'n jsval \<Rightarrow> 'n jsval \<Rightarrow> bool" where
  "sameValueZero stored key = (\<not> isObject key \<and> stored = key)"

fun Map_get :: "('n jsval \<times> 'v) list \<Rightarrow> 'n jsval \<Rightarrow> 'v option" where
  "Map_get [] key = None"
| "Map_get ((k, v) # entries) key =
     (if sameValueZero k key then Some v else Map_get entries key)"

fun Map_set :: "('n jsval \<times> 'v) list \<Rightarrow> 'n jsval \<Rightarrow> 'v \<Rightarrow> ('n jsval \<times> 'v) list" where
  "Map_set [] key val = [(key, val)]"
| "Map_set ((k, v) # entries) key val =
     (if sameValueZero k key then (k, val) # entries else (k, v) # Map_set entries key val)"

section \<open>Sessions, effects and the launcher's state\<close>

text \<open>A transport is an object of the server; a number stands for its identity.\<close>

type_synonym transport = nat

text \<open>
  Modelled from the spec: the class \<^verbatim>\<open>SocketManager\<close> is imported from
  \<^verbatim>\<open>./SocketManager\<close>, which is not among the sources. The spec gives its contract: it
  is constructed with \<^verbatim>\<open>(tunnelId, remotePort, transport)\<close> and exposes \<^verbatim>\<open>send(message)\<close>
  and \<^verbatim>\<open>close()\<close>. A session is the object that \<^verbatim>\<open>new SocketManager(...)\<close> returns: its
  identity \<open>sm_ref\<close> (the number of sessions constructed before it) and the three
  constructor arguments. Calls of its methods are recorded in the trace below; the
  constructor and both methods are taken to return normally.
\<close>

record 'n SocketManager =
  sm_ref :: nat
  sm_tunnelId :: "'n jsval"
  sm_remotePort :: "'n jsval"
  sm_transport :: transport

text \<open>
  Everything the launcher does to the outside, in the order it does it: the calls of
  \<^verbatim>\<open>logger.info\<close>, \<^verbatim>\<open>server.addSubscriber\<close>, \<^verbatim>\<open>transport.onMessage().subscribe\<close>,
  \<^verbatim>\<open>new SocketManager\<close>, \<^verbatim>\<open>socketManager.send\<close> and \<^verbatim>\<open>socketManager.close\<close>.
\<close>

datatype 'n effect =
    LoggerInfo string
  | AddSubscriber string
  | Subscribe transport
  | NewSocketManager "'n SocketManager"
  | Send "'n SocketManager" "'n json"
  | Close "'n SocketManager"

record 'n state =
  idToSocketManager :: "('n jsval \<times> 'n SocketManager) list"
  constructed :: nat
  trace :: "'n effect list"

text \<open>
  The promise returned by one call of the \<^verbatim>\<open>async\<close> handler. The handler has no
  \<^verbatim>\<open>await\<close>, so it runs to its end within the call; a throw inside it rejects the promise.
\<close>

datatype outcome = Fulfilled | Rejected error

section \<open>The launcher\<close>

text \<open>
  \<^verbatim>\<open>launch\<close> (lines 24 to 59): logs, creates the one Map (line 29) and registers the
  subscriber for the channel \<^verbatim>\<open>tunnel\<close>.
\<close>

definition launch :: "'n state" where
  "launch = \<lparr> idToSocketManager = [], constructed = 0,
              trace = [LoggerInfo ''adding tunnel subscriber!'', AddSubscriber ''tunnel''] \<rparr>"

text \<open>\<^verbatim>\<open>onConnection\<close> (lines 32 to 55): logs and subscribes the handler to the transport.\<close>

definition onConnection :: "transport \<Rightarrow> 'n state \<Rightarrow> 'n state" where
  "onConnection transport st =
     st \<lparr> trace := trace st @ [LoggerInfo ''connection made!'', Subscribe transport] \<rparr>"

text \<open>
  The handler (lines 35 to 54), for one payload \<open>data\<close> arriving on \<open>transport\<close>.
  \<^verbatim>\<open>JSON.parse\<close> belongs to the JavaScript runtime and is a parameter: \<open>None\<close> is a
  thrown SyntaxError.
\<close>

definition onMessage ::
  "(string \<Rightarrow> 'n json option) \<Rightarrow> transport \<Rightarrow> string \<Rightarrow> 'n state \<Rightarrow> outcome \<times> 'n state" where
  "onMessage JSON_parse transport data st =
     (case JSON_parse data of
        None \<Rightarrow> (Rejected SyntaxError, st)
      | Some message \<Rightarrow>
     (case getProp message ''event'' of
        Inl e \<Rightarrow> (Rejected e, st)
      | Inr event \<Rightarrow>
     (case getProp message ''tunnelId'' of
        Inl e \<Rightarrow> (Rejected e, st)
      | Inr tunnelId \<Rightarrow>
     (let socketManager = Map_get (idToSocketManager st) tunnelId in
      if event = Some (JStr ''proxyCreated'') then
        (case getProp message ''remotePort'' of
           Inl e \<Rightarrow> (Rejected e, st \<lparr> trace := trace st @ [LoggerInfo ''creating connection manager''] \<rparr>)
         | Inr remotePort \<Rightarrow>
           (let sm = \<lparr> sm_ref = constructed st, sm_tunnelId = tunnelId,
                       sm_remotePort = remotePort, sm_transport = transport \<rparr>
            in (Fulfilled,
                st \<lparr> idToSocketManager := Map_set (idToSocketManager st) tunnelId sm,
                     constructed := Suc (constructed st),
                     trace := trace st @ [LoggerInfo ''creating connection manager'',
                                          NewSocketManager sm] \<rparr>)))
      else if event = Some (JStr ''connection'') \<or> event = Some (JStr ''data'') then
        (case socketManager of
           None \<Rightarrow> (Rejected AssertionError, st)
         | Some sm \<Rightarrow> (Fulfilled, st \<lparr> trace := trace st @ [Send sm message] \<rparr>))
      else if event = Some (JStr ''proxyClosed'') then
        (case socketManager of
           None \<Rightarrow> (Rejected AssertionError, st)
         | Some sm \<Rightarrow> (Fulfilled, st \<lparr> trace := trace st @ [Close sm] \<rparr>))
      else (Fulfilled, st)))))"

text \<open>
  What arrives at the launcher, in arrival order: the server reports a new connection,
  or a transport delivers a payload. The subscription calls the handler once per
  payload and drops the promise it returns. Sequences in which a payload arrives on a
  transport before its connection are not excluded; no property below needs it.
  \<open>run\<close> is the launcher under a host that goes on after a rejected promise nobody
  handles (\<open>deliver GoesOn\<close> below).
\<close>

datatype input = Connection transport | Message transport string

fun step :: "(string \<Rightarrow> 'n json option) \<Rightarrow> input \<Rightarrow> 'n state \<Rightarrow> 'n state" where
  "step JSON_parse (Connection transport) st = onConnection transport st"
| "step JSON_parse (Message transport data) st = snd (onMessage JSON_parse transport data st)"

fun run :: "(string \<Rightarrow> 'n json option) \<Rightarrow> input list \<Rightarrow> 'n state \<Rightarrow> 'n state" where
  "run JSON_parse [] st = st"
| "run JSON_parse (i # inputs) st = run JSON_parse inputs (step JSON_parse i st)"

text \<open>
  The launcher leaves a rejected promise of the handler unhandled, so what follows a
  failure is decided by the host, not by the launcher: Node either reports the
  unhandled rejection and goes on, or ends the process (its modes \<^verbatim>\<open>warn\<close> and
  \<^verbatim>\<open>throw\<close>). The host is a parameter of the delivery. \<open>deliver\<close> returns the error
  that ended the process, if one did, and the state reached.
\<close>

datatype host = GoesOn | Exits

fun deliver ::
  "host \<Rightarrow> (string \<Rightarrow> 'n json option) \<Rightarrow> input list \<Rightarrow> 'n state \<Rightarrow> error option \<times> 'n state" where
  "deliver host JSON_parse [] st = (None, st)"
| "deliver host JSON_parse (Connection transport # inputs) st =
     deliver host JSON_parse inputs (onConnection transport st)"
| "deliver host JSON_parse (Message transport data # inputs) st =
     (case onMessage JSON_parse transport data st of
        (Fulfilled, st') \<Rightarrow> deliver host JSON_parse inputs st'
      | (Rejected e, st') \<Rightarrow>
          (case host of
             GoesOn \<Rightarrow> deliver host JSON_parse inputs st'
           | Exits \<Rightarrow> (Some e, st')))"

section \<open>Sample payloads\<close>

text \<open>
  The payloads of the examples below, each with the value \<^verbatim>\<open>JSON.parse\<close> returns on it
  (numbers as \<open>int\<close>). \<open>sample_parse\<close> is \<^verbatim>\<open>JSON.parse\<close> on these payloads and on
  the text \<^verbatim>\<open>null\<close>, and a SyntaxError on every other text.
\<close>

definition created_t1 :: string where
  \<open>created_t1 = ''{"event":"proxyCreated","tunnelId":"t1","remotePort":8080}''\<close>

definition created_t1_message :: "int json" where
  "created_t1_message =
     JObj [(''event'', JStr ''proxyCreated''), (''tunnelId'', JStr ''t1''), (''remotePort'', JNum 8080)]"

definition recreated_t1 :: string where
  \<open>recreated_t1 = ''{"event":"proxyCreated","tunnelId":"t1","remotePort":9090}''\<close>

definition recreated_t1_message :: "int json" where
  "recreated_t1_message =
     JObj [(''event'', JStr ''proxyCreated''), (''tunnelId'', JStr ''t1''), (''remotePort'', JNum 9090)]"

definition created_t2 :: string where
  \<open>created_t2 = ''{"event":"proxyCreated","tunnelId":"t2"}''\<close>

definition created_t2_message :: "int json" where
  "created_t2_message = JObj [(''event'', JStr ''proxyCreated''), (''tunnelId'', JStr ''t2'')]"

definition data_t1 :: string where
  \<open>data_t1 = ''{"event":"data","tunnelId":"t1","payload":"hello"}''\<close>

definition data_t1_message :: "int json" where
  "data_t1_message =
     JObj [(''event'', JStr ''data''), (''tunnelId'', JStr ''t1''), (''payload'', JStr ''hello'')]"

definition connection_t1 :: string where
  \<open>connection_t1 = ''{"event":"connection","tunnelId":"t1"}''\<close>

definition connection_t1_message :: "int json" where
  "connection_t1_message = JObj [(''event'', JStr ''connection''), (''tunnelId'', JStr ''t1'')]"

definition data_t2 :: string where
  \<open>data_t2 = ''{"event":"data","tunnelId":"t2","payload":"x"}''\<close>

definition data_t2_message :: "int json" where
  "data_t2_message =
     JObj [(''event'', JStr ''data''), (''tunnelId'', JStr ''t2''), (''payload'', JStr ''x'')]"

definition closed_t1 :: string where
  \<open>closed_t1 = ''{"event":"proxyClosed","tunnelId":"t1"}''\<close>

definition closed_t1_message :: "int json" where
  "closed_t1_message = JObj [(''event'', JStr ''proxyClosed''), (''tunnelId'', JStr ''t1'')]"

definition ping_t1 :: string where
  \<open>ping_t1 = ''{"event":"ping","tunnelId":"t1"}''\<close>

definition ping_t1_message :: "int json" where
  "ping_t1_message = JObj [(''event'', JStr ''ping''), (''tunnelId'', JStr ''t1'')]"

definition sample_parse :: "string \<Rightarrow> int json option" where
  "sample_parse data = map_of
     [(created_t1, created_t1_message),
      (recreated_t1, recreated_t1_message),
      (created_t2, created_t2_message),
      (data_t1, data_t1_message),
      (connection_t1, connection_t1_message),
      (data_t2, data_t2_message),
      (closed_t1, closed_t1_message),
      (ping_t1, ping_t1_message),
      (''null'', JNull)]
     data"

section \<open>Notions used to state the properties\<close>

text \<open>
  The value of \<^verbatim>\<open>message.name\<close> where the read does not throw (\<^verbatim>\<open>undefined\<close> stands in
  where it does, and the handler has stopped by then).
\<close>

definition field :: "'n json \<Rightarrow> string \<Rightarrow> 'n jsval" where
  "field message name = (case getProp message name of Inl e \<Rightarrow> None | Inr v \<Rightarrow> v)"

text \<open>An input that is a \<^verbatim>\<open>proxyCreated\<close> message for the tunnel id \<open>key\<close>.\<close>

fun creates :: "(string \<Rightarrow> 'n json option) \<Rightarrow> 'n jsval \<Rightarrow> input \<Rightarrow> bool" where
  "creates JSON_parse key (Connection transport) = False"
| "creates JSON_parse key (Message transport data) =
     (case JSON_parse data of
        None \<Rightarrow> False
      | Some message \<Rightarrow>
          field message ''event'' = Some (JStr ''proxyCreated'') \<and> field message ''tunnelId'' = key)"

text \<open>
  The parsed message of an input that is a \<^verbatim>\<open>connection\<close> or \<^verbatim>\<open>data\<close> message for the
  tunnel id \<open>key\<close> (as a list of one, or none).
\<close>

fun payloadFor :: "(string \<Rightarrow> 'n json option) \<Rightarrow> 'n jsval \<Rightarrow> input \<Rightarrow> 'n json list" where
  "payloadFor JSON_parse key (Connection transport) = []"
| "payloadFor JSON_parse key (Message transport data) =
     (case JSON_parse data of
        None \<Rightarrow> []
      | Some message \<Rightarrow>
          if (field message ''event'' = Some (JStr ''connection'')
              \<or> field message ''event'' = Some (JStr ''data''))
             \<and> field message ''tunnelId'' = key
          then [message] else [])"

definition payloadsFor :: "(string \<Rightarrow> 'n json option) \<Rightarrow> 'n jsval \<Rightarrow> input list \<Rightarrow> 'n json list" where
  "payloadsFor JSON_parse key inputs = concat (map (payloadFor JSON_parse key) inputs)"

text \<open>The arguments of the calls of \<^verbatim>\<open>send\<close> on the session \<open>sm\<close> in a trace, in order.\<close>

fun sendTo :: "'n SocketManager \<Rightarrow> 'n effect \<Rightarrow> 'n json list" where
  "sendTo sm (Send s message) = (if s = sm then [message] else [])"
| "sendTo sm (Close s) = []"
| "sendTo sm (NewSocketManager s) = []"
| "sendTo sm (LoggerInfo text) = []"
| "sendTo sm (AddSubscriber channel) = []"
| "sendTo sm (Subscribe transport) = []"

definition sentTo :: "'n SocketManager \<Rightarrow> 'n effect list \<Rightarrow> 'n json list" where
  "sentTo sm effects = concat (map (sendTo sm) effects)"

text \<open>The session on which an effect calls \<^verbatim>\<open>send\<close> or \<^verbatim>\<open>close\<close>, if it is such a call.\<close>

fun callee :: "'n effect \<Rightarrow> 'n SocketManager option" where
  "callee (Send s message) = Some s"
| "callee (Close s) = Some s"
| "callee (NewSocketManager s) = None"
| "callee (LoggerInfo text) = None"
| "callee (AddSubscriber channel) = None"
| "callee (Subscribe transport) = None"

text \<open>The session an effect constructs or calls.\<close>

fun sessionOf :: "'n effect \<Rightarrow> 'n SocketManager option" where
  "sessionOf (NewSocketManager s) = Some s"
| "sessionOf e = callee e"

text \<open>The effects added to the trace between two states.\<close>

definition emitted :: "'n state \<Rightarrow> 'n state \<Rightarrow> 'n effect list" where
  "emitted st st' = drop (length (trace st)) (trace st')"

text \<open>
  The invariant of the launcher's state: the sessions in the Map are pairwise different
  objects, and every session in the Map or in the trace was constructed earlier.
\<close>

definition wf_state :: "'n state \<Rightarrow> bool" where
  "wf_state st \<longleftrightarrow>
     distinct (map snd (idToSocketManager st))
     \<and> (\<forall>s \<in> snd ` set (idToSocketManager st). sm_ref s < constructed st)
     \<and> (\<forall>e \<in> set (trace st). \<forall>s. sessionOf e = Some s \<longrightarrow> sm_ref s < constructed st)"

section \<open>Lemmas about the handler, one per branch\<close>

lemma getProp_prop: "message \<noteq> JNull \<Longrightarrow> getProp message name = Inr (field message name)"
  by (cases message) (auto simp: field_def)

lemma onMessage_syntax:
  "P d = None \<Longrightarrow> onMessage P t d st = (Rejected SyntaxError, st)"
  by (simp add: onMessage_def)

lemma onMessage_null:
  "P d = Some JNull \<Longrightarrow> onMessage P t d st = (Rejected TypeError, st)"
  by (simp add: onMessage_def)

lemma onMessage_created:
  assumes "P d = Some m" "m \<noteq> JNull" "field m ''event'' = Some (JStr ''proxyCreated'')"
  shows "onMessage P t d st =
     (Fulfilled,
      st \<lparr> idToSocketManager := Map_set (idToSocketManager st) (field m ''tunnelId'')
               \<lparr> sm_ref = constructed st, sm_tunnelId = field m ''tunnelId'',
                 sm_remotePort = field m ''remotePort'', sm_transport = t \<rparr>,
           constructed := Suc (constructed st),
           trace := trace st @ [LoggerInfo ''creating connection manager'',
                     NewSocketManager \<lparr> sm_ref = constructed st, sm_tunnelId = field m ''tunnelId'',
                 sm_remotePort = field m ''remotePort'', sm_transport = t \<rparr>] \<rparr>)"
  using assms by (simp add: onMessage_def getProp_prop Let_def)

lemma onMessage_send:
  assumes "P d = Some m" "m \<noteq> JNull"
    "field m ''event'' = Some (JStr ''connection'') \<or> field m ''event'' = Some (JStr ''data'')"
  shows "onMessage P t d st =
     (case Map_get (idToSocketManager st) (field m ''tunnelId'') of
        None \<Rightarrow> (Rejected AssertionError, st)
      | Some sm \<Rightarrow> (Fulfilled, st \<lparr> trace := trace st @ [Send sm m] \<rparr>))"
  using assms by (auto simp add: onMessage_def getProp_prop Let_def)

lemma onMessage_closed:
  assumes "P d = Some m" "m \<noteq> JNull" "field m ''event'' = Some (JStr ''proxyClosed'')"
  shows "onMessage P t d st =
     (case Map_get (idToSocketManager st) (field m ''tunnelId'') of
        None \<Rightarrow> (Rejected AssertionError, st)
      | Some sm \<Rightarrow> (Fulfilled, st \<lparr> trace := trace st @ [Close sm] \<rparr>))"
  using assms by (simp add: onMessage_def getProp_prop Let_def)

lemma onMessage_other:
  assumes "P d = Some m" "m \<noteq> JNull"
    "field m ''event'' \<noteq> Some (JStr ''proxyCreated'')"
    "field m ''event'' \<noteq> Some (JStr ''connection'')"
    "field m ''event'' \<noteq> Some (JStr ''data'')"
    "field m ''event'' \<noteq> Some (JStr ''proxyClosed'')"
  shows "onMessage P t d st = (Fulfilled, st)"
  using assms by (simp add: onMessage_def getProp_prop Let_def)


subsection \<open>Lookup and update of the Map\<close>

lemma Map_get_object [simp]: "isObject key \<Longrightarrow> Map_get entries key = None"
  by (induction entries) (auto simp: sameValueZero_def)

lemma Map_get_set_same:
  "\<not> isObject key \<Longrightarrow> Map_get (Map_set entries key val) key = Some val"
  by (induction entries) (auto simp: sameValueZero_def)

lemma Map_get_set_other:
  "k \<noteq> key \<Longrightarrow> Map_get (Map_set entries k val) key = Map_get entries key"
  by (induction entries) (auto simp: sameValueZero_def)

lemma Map_get_mem: "Map_get entries key = Some v \<Longrightarrow> (key, v) \<in> set entries"
  by (induction entries) (auto simp: sameValueZero_def split: if_splits)

lemma Map_set_mem: "(key, val) \<in> set (Map_set entries key val)"
  by (induction entries) (auto simp: sameValueZero_def)

lemma Map_get_value_mem: "Map_get entries key = Some v \<Longrightarrow> v \<in> snd ` set entries"
  by (drule Map_get_mem) (simp add: rev_image_eqI)

lemma Map_set_values: "snd ` set (Map_set entries key val) \<subseteq> insert val (snd ` set entries)"
proof (induction entries)
  case Nil
  then show ?case by simp
next
  case (Cons p entries)
  obtain k v where p: "p = (k, v)" by (cases p)
  show ?case using Cons by (cases "sameValueZero k key") (auto simp: p)
qed

lemma Map_get_distinct:
  "distinct (map snd entries) \<Longrightarrow> Map_get entries a = Some s \<Longrightarrow> Map_get entries b = Some s'
   \<Longrightarrow> a \<noteq> b \<Longrightarrow> s \<noteq> s'"
proof (induction entries)
  case Nil
  then show ?case by simp
next
  case (Cons p entries)
  obtain k v where p: "p = (k, v)" by (cases p)
  have v: "v \<notin> snd ` set entries" and d: "distinct (map snd entries)"
    using Cons.prems(1) by (simp_all add: p)
  show ?case
  proof (cases "sameValueZero k a")
    case True
    then have "\<not> sameValueZero k b" using Cons.prems(4) by (auto simp: sameValueZero_def)
    then have "Map_get entries b = Some s'" using Cons.prems(3) by (simp add: p)
    then have "s' \<in> snd ` set entries" by (rule Map_get_value_mem)
    moreover have "s = v" using True Cons.prems(2) by (simp add: p)
    ultimately show ?thesis using v by auto
  next
    case False
    then have a: "Map_get entries a = Some s" using Cons.prems(2) by (simp add: p)
    show ?thesis
    proof (cases "sameValueZero k b")
      case True
      then have "s' = v" using Cons.prems(3) by (simp add: p)
      moreover have "s \<in> snd ` set entries" using a by (rule Map_get_value_mem)
      ultimately show ?thesis using v by auto
    next
      case False
      then have "Map_get entries b = Some s'" using Cons.prems(3) by (simp add: p)
      then show ?thesis using Cons.IH d a Cons.prems(4) by blast
    qed
  qed
qed

lemma Map_set_distinct:
  "distinct (map snd entries) \<Longrightarrow> val \<notin> snd ` set entries \<Longrightarrow> distinct (map snd (Map_set entries key val))"
proof (induction entries)
  case Nil
  then show ?case by simp
next
  case (Cons p entries)
  obtain k v where p: "p = (k, v)" by (cases p)
  have "v \<notin> snd ` set (Map_set entries key val)"
    using Cons.prems Map_set_values[of entries key val] by (auto simp: p)
  then show ?case using Cons by (auto simp: p)
qed

lemma Map_set_replaces:
  "distinct (map snd entries) \<Longrightarrow> Map_get entries key = Some old \<Longrightarrow> val \<noteq> old
   \<Longrightarrow> old \<notin> snd ` set (Map_set entries key val)"
proof (induction entries)
  case Nil
  then show ?case by simp
next
  case (Cons p entries)
  obtain k v where p: "p = (k, v)" by (cases p)
  show ?case
  proof (cases "sameValueZero k key")
    case True
    then show ?thesis using Cons.prems by (auto simp: p)
  next
    case False
    then have "Map_get entries key = Some old" using Cons.prems by (simp add: p)
    moreover from this have "old \<in> snd ` set entries" by (rule Map_get_value_mem)
    ultimately show ?thesis using Cons False by (auto simp: p)
  qed
qed

section \<open>The invariant holds in every reachable state\<close>

lemma onMessage_cases [case_names malformed nullish created send closed other]:
  obtains "P d = None"
  | "P d = Some JNull"
  | m where "P d = Some m" "m \<noteq> JNull" "field m ''event'' = Some (JStr ''proxyCreated'')"
  | m where "P d = Some m" "m \<noteq> JNull"
      "field m ''event'' = Some (JStr ''connection'') \<or> field m ''event'' = Some (JStr ''data'')"
  | m where "P d = Some m" "m \<noteq> JNull" "field m ''event'' = Some (JStr ''proxyClosed'')"
  | m where "P d = Some m" "m \<noteq> JNull"
      "field m ''event'' \<noteq> Some (JStr ''proxyCreated'')"
      "field m ''event'' \<noteq> Some (JStr ''connection'')"
      "field m ''event'' \<noteq> Some (JStr ''data'')"
      "field m ''event'' \<noteq> Some (JStr ''proxyClosed'')"
  by (cases "P d") auto

lemma onMessage_rejected_state:
  assumes "fst (onMessage P t d st) = Rejected e"
  shows "snd (onMessage P t d st) = st"
proof (cases rule: onMessage_cases[of P d])
  case malformed
  then show ?thesis by (simp add: onMessage_syntax)
next
  case nullish
  then show ?thesis by (simp add: onMessage_null)
next
  case (created m)
  then show ?thesis using assms by (simp add: onMessage_created)
next
  case (send m)
  then show ?thesis using assms by (simp add: onMessage_send split: option.splits)
next
  case (closed m)
  then show ?thesis using assms by (simp add: onMessage_closed split: option.splits)
next
  case (other m)
  then show ?thesis by (simp add: onMessage_other)
qed

lemma wf_bound:
  "wf_state st \<Longrightarrow> s \<in> snd ` set (idToSocketManager st) \<Longrightarrow> sm_ref s < constructed st"
  unfolding wf_state_def by blast

lemma wf_launch: "wf_state launch"
  by (simp add: wf_state_def launch_def)

lemma wf_onConnection: "wf_state st \<Longrightarrow> wf_state (onConnection t st)"
  by (simp add: wf_state_def onConnection_def)

lemma wf_onMessage:
  assumes "wf_state st"
  shows "wf_state (snd (onMessage P t d st))"
proof (cases rule: onMessage_cases[of P d])
  case malformed
  then show ?thesis using assms by (simp add: onMessage_syntax)
next
  case nullish
  then show ?thesis using assms by (simp add: onMessage_null)
next
  case (created m)
  let ?sm = "\<lparr> sm_ref = constructed st, sm_tunnelId = field m ''tunnelId'',
               sm_remotePort = field m ''remotePort'', sm_transport = t \<rparr>"
  let ?tbl = "Map_set (idToSocketManager st) (field m ''tunnelId'') ?sm"
  have fresh: "?sm \<notin> snd ` set (idToSocketManager st)"
  proof
    assume "?sm \<in> snd ` set (idToSocketManager st)"
    then have "sm_ref ?sm < constructed st" using assms by (rule wf_bound[rotated])
    then show False by simp
  qed
  have d: "distinct (map snd ?tbl)"
    using assms fresh by (intro Map_set_distinct) (simp_all add: wf_state_def)
  have b: "\<forall>s \<in> snd ` set ?tbl. sm_ref s < Suc (constructed st)"
  proof
    fix s assume "s \<in> snd ` set ?tbl"
    then have "s = ?sm \<or> s \<in> snd ` set (idToSocketManager st)"
      using Map_set_values[of "idToSocketManager st" "field m ''tunnelId''" ?sm] by auto
    then show "sm_ref s < Suc (constructed st)"
      using wf_bound[OF assms, of s] by (auto simp: less_Suc_eq)
  qed
  have e: "\<forall>e \<in> set (trace st). \<forall>s. sessionOf e = Some s \<longrightarrow> sm_ref s < Suc (constructed st)"
    using assms by (auto simp: wf_state_def less_Suc_eq)
  show ?thesis
    using created d b e by (simp add: onMessage_created wf_state_def)
next
  case (send m)
  show ?thesis
  proof (cases "Map_get (idToSocketManager st) (field m ''tunnelId'')")
    case None
    then show ?thesis using send assms by (simp add: onMessage_send)
  next
    case (Some sm)
    then have "sm \<in> snd ` set (idToSocketManager st)" by (rule Map_get_value_mem)
    then have "sm_ref sm < constructed st" using assms by (rule wf_bound[rotated])
    then show ?thesis using send Some assms by (simp add: onMessage_send wf_state_def)
  qed
next
  case (closed m)
  show ?thesis
  proof (cases "Map_get (idToSocketManager st) (field m ''tunnelId'')")
    case None
    then show ?thesis using closed assms by (simp add: onMessage_closed)
  next
    case (Some sm)
    then have "sm \<in> snd ` set (idToSocketManager st)" by (rule Map_get_value_mem)
    then have "sm_ref sm < constructed st" using assms by (rule wf_bound[rotated])
    then show ?thesis using closed Some assms by (simp add: onMessage_closed wf_state_def)
  qed
next
  case (other m)
  then show ?thesis using assms by (simp add: onMessage_other)
qed

lemma wf_step: "wf_state st \<Longrightarrow> wf_state (step P i st)"
  by (cases i) (simp_all add: wf_onConnection wf_onMessage)

lemma wf_run: "wf_state st \<Longrightarrow> wf_state (run P inputs st)"
  by (induction inputs arbitrary: st) (simp_all add: wf_step)

lemma run_append: "run P (xs @ ys) st = run P ys (run P xs st)"
  by (induction xs arbitrary: st) simp_all

lemma deliver_GoesOn: "deliver GoesOn P inputs st = (None, run P inputs st)"
proof (induction inputs arbitrary: st)
  case Nil
  then show ?case by simp
next
  case (Cons i inputs)
  show ?case
  proof (cases i)
    case (Connection t)
    then show ?thesis using Cons by simp
  next
    case (Message t d)
    then show ?thesis using Cons
      by (cases "onMessage P t d st") (auto split: outcome.splits)
  qed
qed

section \<open>What a session is sent over a run\<close>

lemma getProp_field: "getProp message name = Inr v \<Longrightarrow> message \<noteq> JNull \<and> field message name = v"
  by (cases message) (auto simp: field_def)

lemma sentTo_append: "sentTo sm (xs @ ys) = sentTo sm xs @ sentTo sm ys"
  by (simp add: sentTo_def)

lemma sentTo_simps [simp]:
  "sentTo sm [] = []"
  "sentTo sm (e # es) = sendTo sm e @ sentTo sm es"
  by (simp_all add: sentTo_def)

lemma payloadsFor_simps [simp]:
  "payloadsFor P key [] = []"
  "payloadsFor P key (i # inputs) = payloadFor P key i @ payloadsFor P key inputs"
  by (simp_all add: payloadsFor_def)

lemma get_onMessage_no_create:
  assumes "\<not> creates P key (Message t d)"
  shows "Map_get (idToSocketManager (snd (onMessage P t d st))) key = Map_get (idToSocketManager st) key"
proof (cases rule: onMessage_cases[of P d])
  case malformed
  then show ?thesis by (simp add: onMessage_syntax)
next
  case nullish
  then show ?thesis by (simp add: onMessage_null)
next
  case (created m)
  then have "field m ''tunnelId'' \<noteq> key" using assms by simp
  then show ?thesis using created by (simp add: onMessage_created Map_get_set_other)
next
  case (send m)
  then show ?thesis by (simp add: onMessage_send split: option.splits)
next
  case (closed m)
  then show ?thesis by (simp add: onMessage_closed split: option.splits)
next
  case (other m)
  then show ?thesis by (simp add: onMessage_other)
qed

lemma get_step_no_create:
  "\<not> creates P key i \<Longrightarrow> Map_get (idToSocketManager (step P i st)) key = Map_get (idToSocketManager st) key"
  by (cases i) (simp_all add: get_onMessage_no_create onConnection_def)

lemma get_run_no_create:
  "\<forall>i \<in> set inputs. \<not> creates P key i \<Longrightarrow>
   Map_get (idToSocketManager (run P inputs st)) key = Map_get (idToSocketManager st) key"
  by (induction inputs arbitrary: st) (simp_all add: get_step_no_create)

lemma sent_onMessage_registered:
  assumes wf: "wf_state st" and reg: "Map_get (idToSocketManager st) key = Some sm"
    and nc: "\<not> creates P key (Message t d)"
  shows "sentTo sm (trace (snd (onMessage P t d st))) = sentTo sm (trace st) @ payloadFor P key (Message t d)"
proof (cases rule: onMessage_cases[of P d])
  case malformed
  then show ?thesis by (simp add: onMessage_syntax)
next
  case nullish
  then show ?thesis by (simp add: onMessage_null field_def)
next
  case (created m)
  then show ?thesis by (auto simp add: onMessage_created sentTo_append)
next
  case (send m)
  show ?thesis
  proof (cases "field m ''tunnelId'' = key")
    case True
    then show ?thesis using send reg by (auto simp add: onMessage_send sentTo_append)
  next
    case False
    have "sentTo sm (trace (snd (onMessage P t d st))) = sentTo sm (trace st)"
    proof (cases "Map_get (idToSocketManager st) (field m ''tunnelId'')")
      case None
      then show ?thesis using send by (simp add: onMessage_send)
    next
      case (Some s')
      have "distinct (map snd (idToSocketManager st))" using wf by (simp add: wf_state_def)
      from Map_get_distinct[OF this reg Some] False have "s' \<noteq> sm" by auto
      then show ?thesis using send Some by (simp add: onMessage_send sentTo_append)
    qed
    then show ?thesis using send False by auto
  qed
next
  case (closed m)
  then show ?thesis by (auto simp add: onMessage_closed sentTo_append split: option.splits)
next
  case (other m)
  then show ?thesis by (auto simp add: onMessage_other)
qed

lemma sent_step_registered:
  "wf_state st \<Longrightarrow> Map_get (idToSocketManager st) key = Some sm \<Longrightarrow> \<not> creates P key i \<Longrightarrow>
   sentTo sm (trace (step P i st)) = sentTo sm (trace st) @ payloadFor P key i"
  by (cases i) (simp_all add: sent_onMessage_registered onConnection_def sentTo_append)

lemma sent_onMessage_absent:
  assumes wf: "wf_state st" and ab: "sm \<notin> snd ` set (idToSocketManager st)"
    and old: "sm_ref sm < constructed st"
  shows "sentTo sm (trace (snd (onMessage P t d st))) = sentTo sm (trace st)
         \<and> sm \<notin> snd ` set (idToSocketManager (snd (onMessage P t d st)))
         \<and> sm_ref sm < constructed (snd (onMessage P t d st))"
proof (cases rule: onMessage_cases[of P d])
  case malformed
  then show ?thesis using ab old by (simp add: onMessage_syntax)
next
  case nullish
  then show ?thesis using ab old by (simp add: onMessage_null)
next
  case (created m)
  let ?new = "\<lparr> sm_ref = constructed st, sm_tunnelId = field m ''tunnelId'',
               sm_remotePort = field m ''remotePort'', sm_transport = t \<rparr>"
  have "sm \<noteq> ?new" using old by auto
  then have "sm \<notin> snd ` set (Map_set (idToSocketManager st) (field m ''tunnelId'') ?new)"
    using ab Map_set_values[of "idToSocketManager st" "field m ''tunnelId''" ?new] by auto
  then show ?thesis using created old by (simp add: onMessage_created sentTo_append)
next
  case (send m)
  show ?thesis
  proof (cases "Map_get (idToSocketManager st) (field m ''tunnelId'')")
    case None
    then show ?thesis using send ab old by (simp add: onMessage_send)
  next
    case (Some s')
    then have "s' \<in> snd ` set (idToSocketManager st)" by (rule Map_get_value_mem)
    then have "s' \<noteq> sm" using ab by auto
    then show ?thesis using send Some ab old by (simp add: onMessage_send sentTo_append)
  qed
next
  case (closed m)
  then show ?thesis using ab old by (simp add: onMessage_closed sentTo_append split: option.splits)
next
  case (other m)
  then show ?thesis using ab old by (simp add: onMessage_other)
qed

lemma sent_step_absent:
  "wf_state st \<Longrightarrow> sm \<notin> snd ` set (idToSocketManager st) \<Longrightarrow> sm_ref sm < constructed st \<Longrightarrow>
   sentTo sm (trace (step P i st)) = sentTo sm (trace st)
   \<and> sm \<notin> snd ` set (idToSocketManager (step P i st))
   \<and> sm_ref sm < constructed (step P i st)"
  by (cases i) (simp_all add: sent_onMessage_absent onConnection_def sentTo_append)

lemma sent_run_absent:
  "wf_state st \<Longrightarrow> sm \<notin> snd ` set (idToSocketManager st) \<Longrightarrow> sm_ref sm < constructed st \<Longrightarrow>
   sentTo sm (trace (run P inputs st)) = sentTo sm (trace st)"
proof (induction inputs arbitrary: st)
  case Nil
  then show ?case by simp
next
  case (Cons i inputs)
  from sent_step_absent[OF Cons.prems, of P i] wf_step[OF Cons.prems(1), of P i]
  show ?case using Cons.IH[of "step P i st"] by simp
qed

lemma sent_step_replaced:
  assumes wf: "wf_state st" and reg: "Map_get (idToSocketManager st) key = Some sm"
    and cr: "creates P key i"
  shows "sentTo sm (trace (step P i st)) = sentTo sm (trace st)
         \<and> sm \<notin> snd ` set (idToSocketManager (step P i st))
         \<and> sm_ref sm < constructed (step P i st)"
proof -
  from cr obtain t d m where i: "i = Message t d" and m: "P d = Some m"
    and ev: "field m ''event'' = Some (JStr ''proxyCreated'')" and k: "field m ''tunnelId'' = key"
    by (cases i) (auto split: option.splits)
  have nn: "m \<noteq> JNull" using ev by (auto simp: field_def)
  let ?new = "\<lparr> sm_ref = constructed st, sm_tunnelId = key,
               sm_remotePort = field m ''remotePort'', sm_transport = t \<rparr>"
  have "sm \<in> snd ` set (idToSocketManager st)" using reg by (rule Map_get_value_mem)
  then have old: "sm_ref sm < constructed st" using wf by (rule wf_bound[rotated])
  then have ne: "?new \<noteq> sm" by auto
  have "distinct (map snd (idToSocketManager st))" using wf by (simp add: wf_state_def)
  from Map_set_replaces[OF this reg ne]
  have "sm \<notin> snd ` set (Map_set (idToSocketManager st) key ?new)" .
  then show ?thesis using old m nn ev k by (simp add: i onMessage_created sentTo_append)
qed

lemma sent_run_registered:
  "wf_state st \<Longrightarrow> Map_get (idToSocketManager st) key = Some sm \<Longrightarrow>
   sentTo sm (trace (run P inputs st))
     = sentTo sm (trace st) @ payloadsFor P key (takeWhile (\<lambda>i. \<not> creates P key i) inputs)"
proof (induction inputs arbitrary: st)
  case Nil
  then show ?case by simp
next
  case (Cons i inputs)
  show ?case
  proof (cases "creates P key i")
    case True
    from sent_step_replaced[OF Cons.prems True]
    have "sentTo sm (trace (run P inputs (step P i st))) = sentTo sm (trace st)"
      using sent_run_absent[of "step P i st" sm P inputs] wf_step[OF Cons.prems(1), of P i] by simp
    then show ?thesis using True by simp
  next
    case False
    have "Map_get (idToSocketManager (step P i st)) key = Some sm"
      using False Cons.prems(2) by (simp add: get_step_no_create)
    from Cons.IH[OF wf_step[OF Cons.prems(1)] this]
    show ?thesis using False sent_step_registered[OF Cons.prems False] by simp
  qed
qed

lemma emitted_append [simp]: "emitted st (st \<lparr> trace := trace st @ es \<rparr>) = es"
  by (simp add: emitted_def)

lemma emitted_same [simp]: "emitted st st = []"
  by (simp add: emitted_def)

lemma sentTo_unmentioned:
  "\<forall>e \<in> set es. sessionOf e \<noteq> Some sm \<Longrightarrow> sentTo sm es = []"
proof (induction es)
  case Nil
  then show ?case by simp
next
  case (Cons e es)
  then show ?case by (cases e) auto
qed

lemma sentTo_fresh:
  assumes "wf_state st" "constructed st \<le> sm_ref sm"
  shows "sentTo sm (trace st) = []"
proof (rule sentTo_unmentioned, rule ballI)
  fix e assume "e \<in> set (trace st)"
  then have "\<forall>s. sessionOf e = Some s \<longrightarrow> sm_ref s < constructed st"
    using assms(1) by (simp add: wf_state_def)
  then show "sessionOf e \<noteq> Some sm" using assms(2) by auto
qed

lemmas sample_eval =
  sample_parse_def created_t1_def created_t1_message_def recreated_t1_def recreated_t1_message_def
  created_t2_def created_t2_message_def data_t1_def data_t1_message_def connection_t1_def
  connection_t1_message_def data_t2_def data_t2_message_def closed_t1_def closed_t1_message_def
  ping_t1_def ping_t1_message_def
  launch_def onMessage_def onConnection_def Let_def sameValueZero_def isObject_def field_def

section \<open>The properties of the launcher\<close>

text \<open>
  C1. The claim: where the tunnel id is mapped to a session, a \<^verbatim>\<open>proxyClosed\<close> message for
  it calls the session's \<^verbatim>\<open>close()\<close> and removes the entry, so that a later \<^verbatim>\<open>data\<close>
  message for the id finds no session and is not forwarded. The handler does call
  \<^verbatim>\<open>close()\<close> (line 52), but nothing in the launcher ever deletes from the Map. What
  holds: the message is handled with success, the one effect is \<^verbatim>\<open>close()\<close> on the
  registered session, and the Map is left as it was; after any further inputs with no
  \<^verbatim>\<open>proxyCreated\<close> for the id, a \<^verbatim>\<open>data\<close> message for the id (on any transport) is
  still forwarded to that same, closed session.
\<close>

theorem proxyClosed_closes_and_keeps_entry:
  assumes "Map_get (idToSocketManager st) key = Some sm"
    and "JSON_parse closed = Some cmsg"
    and "getProp cmsg ''event'' = Inr (Some (JStr ''proxyClosed''))"
    and "getProp cmsg ''tunnelId'' = Inr key"
    and "\<forall>i \<in> set inputs. \<not> creates JSON_parse key i"
    and "JSON_parse data = Some dmsg"
    and "getProp dmsg ''event'' = Inr (Some (JStr ''data''))"
    and "getProp dmsg ''tunnelId'' = Inr key"
  shows "onMessage JSON_parse transport closed st = (Fulfilled, st \<lparr> trace := trace st @ [Close sm] \<rparr>)
    \<and> onMessage JSON_parse transport' data (run JSON_parse inputs (st \<lparr> trace := trace st @ [Close sm] \<rparr>))
        = (Fulfilled,
           (run JSON_parse inputs (st \<lparr> trace := trace st @ [Close sm] \<rparr>))
             \<lparr> trace := trace (run JSON_parse inputs (st \<lparr> trace := trace st @ [Close sm] \<rparr>))
                         @ [Send sm dmsg] \<rparr>)"
proof -
  have c: "cmsg \<noteq> JNull" "field cmsg ''event'' = Some (JStr ''proxyClosed'')" "field cmsg ''tunnelId'' = key"
    using assms(3,4) by (simp_all add: getProp_field)
  have d: "dmsg \<noteq> JNull" "field dmsg ''event'' = Some (JStr ''data'')" "field dmsg ''tunnelId'' = key"
    using assms(7,8) by (simp_all add: getProp_field)
  let ?st = "st \<lparr> trace := trace st @ [Close sm] \<rparr>"
  have 1: "onMessage JSON_parse transport closed st = (Fulfilled, ?st)"
    using assms(1,2) c by (simp add: onMessage_closed)
  have "Map_get (idToSocketManager (run JSON_parse inputs ?st)) key = Some sm"
    using get_run_no_create[OF assms(5), of ?st] assms(1) by simp
  then have 2: "onMessage JSON_parse transport' data (run JSON_parse inputs ?st)
        = (Fulfilled, (run JSON_parse inputs ?st)
             \<lparr> trace := trace (run JSON_parse inputs ?st) @ [Send sm dmsg] \<rparr>)"
    using assms(6) d by (simp add: onMessage_send)
  from 1 2 show ?thesis by simp
qed

theorem proxyClosed_closes_and_keeps_entry_witness:
  "Map_get (idToSocketManager (run sample_parse [Message 0 created_t1] launch)) (Some (JStr ''t1''))
       = Some \<lparr> sm_ref = 0, sm_tunnelId = Some (JStr ''t1''), sm_remotePort = Some (JNum 8080), sm_transport = 0 \<rparr>
   \<and> sample_parse closed_t1 = Some closed_t1_message
   \<and> getProp closed_t1_message ''event'' = Inr (Some (JStr ''proxyClosed''))
   \<and> getProp closed_t1_message ''tunnelId'' = Inr (Some (JStr ''t1''))
   \<and> \<not> creates sample_parse (Some (JStr ''t1'')) (Message 0 created_t2)
   \<and> sample_parse data_t1 = Some data_t1_message
   \<and> getProp data_t1_message ''event'' = Inr (Some (JStr ''data''))
   \<and> getProp data_t1_message ''tunnelId'' = Inr (Some (JStr ''t1''))
   \<and> onMessage sample_parse 0 closed_t1 (run sample_parse [Message 0 created_t1] launch)
       = (Fulfilled,
          \<lparr> idToSocketManager = [(Some (JStr ''t1''), \<lparr> sm_ref = 0, sm_tunnelId = Some (JStr ''t1''), sm_remotePort = Some (JNum 8080), sm_transport = 0 \<rparr>)],
            constructed = 1,
            trace = [LoggerInfo ''adding tunnel subscriber!'', AddSubscriber ''tunnel'',
                     LoggerInfo ''creating connection manager'',
                     NewSocketManager \<lparr> sm_ref = 0, sm_tunnelId = Some (JStr ''t1''), sm_remotePort = Some (JNum 8080), sm_transport = 0 \<rparr>,
                     Close \<lparr> sm_ref = 0, sm_tunnelId = Some (JStr ''t1''), sm_remotePort = Some (JNum 8080), sm_transport = 0 \<rparr>] \<rparr>)
   \<and> onMessage sample_parse 1 data_t1
        (run sample_parse [Message 0 created_t1, Message 0 closed_t1, Message 0 created_t2] launch)
       = (Fulfilled,
          \<lparr> idToSocketManager = [(Some (JStr ''t1''), \<lparr> sm_ref = 0, sm_tunnelId = Some (JStr ''t1''), sm_remotePort = Some (JNum 8080), sm_transport = 0 \<rparr>),
                                 (Some (JStr ''t2''), \<lparr> sm_ref = 1, sm_tunnelId = Some (JStr ''t2''), sm_remotePort = None, sm_transport = 0 \<rparr>)],
            constructed = 2,
            trace = [LoggerInfo ''adding tunnel subscriber!'', AddSubscriber ''tunnel'',
                     LoggerInfo ''creating connection manager'',
                     NewSocketManager \<lparr> sm_ref = 0, sm_tunnelId = Some (JStr ''t1''), sm_remotePort = Some (JNum 8080), sm_transport = 0 \<rparr>,
                     Close \<lparr> sm_ref = 0, sm_tunnelId = Some (JStr ''t1''), sm_remotePort = Some (JNum 8080), sm_transport = 0 \<rparr>,
                     LoggerInfo ''creating connection manager'',
                     NewSocketManager \<lparr> sm_ref = 1, sm_tunnelId = Some (JStr ''t2''), sm_remotePort = None, sm_transport = 0 \<rparr>,
                     Send \<lparr> sm_ref = 0, sm_tunnelId = Some (JStr ''t1''), sm_remotePort = Some (JNum 8080), sm_transport = 0 \<rparr> data_t1_message] \<rparr>)"
  using proxyClosed_closes_and_keeps_entry [where JSON_parse = sample_parse
      and st = "run sample_parse [Message 0 created_t1] launch" and key = "Some (JStr ''t1'')"
      and sm = "\<lparr> sm_ref = 0, sm_tunnelId = Some (JStr ''t1''), sm_remotePort = Some (JNum 8080), sm_transport = 0 \<rparr>"
      and closed = closed_t1 and cmsg = closed_t1_message and inputs = "[Message 0 created_t2]"
      and data = data_t1 and dmsg = data_t1_message and transport = 0 and transport' = 1]
  by (simp add: sample_eval)

text \<open>
  The run of the spec's scenario: create \<^verbatim>\<open>t1\<close>, close \<^verbatim>\<open>t1\<close>, then \<^verbatim>\<open>data\<close> for
  \<^verbatim>\<open>t1\<close>. The entry is still in the Map and the \<^verbatim>\<open>data\<close> message is sent to the
  session after its \<^verbatim>\<open>close()\<close>.
\<close>

theorem proxyClosed_removes_entry_counterexample:
  "onMessage sample_parse 0 data_t1
     (run sample_parse [Message 0 created_t1, Message 0 closed_t1] launch)
   = (Fulfilled,
      \<lparr> idToSocketManager = [(Some (JStr ''t1''), \<lparr> sm_ref = 0, sm_tunnelId = Some (JStr ''t1''), sm_remotePort = Some (JNum 8080), sm_transport = 0 \<rparr>)],
        constructed = 1,
        trace = [LoggerInfo ''adding tunnel subscriber!'', AddSubscriber ''tunnel'',
                 LoggerInfo ''creating connection manager'',
                 NewSocketManager \<lparr> sm_ref = 0, sm_tunnelId = Some (JStr ''t1''), sm_remotePort = Some (JNum 8080), sm_transport = 0 \<rparr>,
                 Close \<lparr> sm_ref = 0, sm_tunnelId = Some (JStr ''t1''), sm_remotePort = Some (JNum 8080), sm_transport = 0 \<rparr>,
                 Send \<lparr> sm_ref = 0, sm_tunnelId = Some (JStr ''t1''), sm_remotePort = Some (JNum 8080), sm_transport = 0 \<rparr> data_t1_message] \<rparr>)"
  by (simp add: sample_eval)

text \<open>
  C2. The claim: \<^verbatim>\<open>onConnection(transport)\<close> creates a new, empty table for that transport,
  so that a tunnel id created on one transport is not visible on another. The Map is
  created once, in \<^verbatim>\<open>launch\<close> (line 29), outside \<^verbatim>\<open>onConnection\<close>, and every handler
  closes over it. What holds: \<^verbatim>\<open>launch\<close> starts with one empty Map, \<^verbatim>\<open>onConnection\<close>
  leaves the Map unchanged, and a tunnel id created by a \<^verbatim>\<open>proxyCreated\<close> on the transport
  \<open>t1\<close> is visible on any transport \<open>t2\<close> connected afterwards: a \<^verbatim>\<open>data\<close> message
  arriving on \<open>t2\<close> is forwarded to the session constructed with \<open>t1\<close>.
\<close>

theorem table_shared_by_all_transports:
  assumes "JSON_parse created = Some cmsg"
    and "getProp cmsg ''event'' = Inr (Some (JStr ''proxyCreated''))"
    and "getProp cmsg ''tunnelId'' = Inr key"
    and "getProp cmsg ''remotePort'' = Inr port"
    and "\<not> isObject key"
    and "JSON_parse data = Some dmsg"
    and "getProp dmsg ''event'' = Inr (Some (JStr ''data''))"
    and "getProp dmsg ''tunnelId'' = Inr key"
  shows "idToSocketManager (launch :: 'n state) = []
    \<and> idToSocketManager (onConnection t2 st) = idToSocketManager st
    \<and> onMessage JSON_parse t2 data (onConnection t2 (snd (onMessage JSON_parse t1 created st)))
        = (Fulfilled,
           (onConnection t2 (snd (onMessage JSON_parse t1 created st)))
             \<lparr> trace := trace (onConnection t2 (snd (onMessage JSON_parse t1 created st)))
                  @ [Send \<lparr> sm_ref = constructed st, sm_tunnelId = key, sm_remotePort = port,
                            sm_transport = t1 \<rparr> dmsg] \<rparr>)"
proof -
  have c: "cmsg \<noteq> JNull" "field cmsg ''event'' = Some (JStr ''proxyCreated'')"
    "field cmsg ''tunnelId'' = key" "field cmsg ''remotePort'' = port"
    using assms(2,3,4) by (simp_all add: getProp_field)
  have d: "dmsg \<noteq> JNull" "field dmsg ''event'' = Some (JStr ''data'')" "field dmsg ''tunnelId'' = key"
    using assms(7,8) by (simp_all add: getProp_field)
  let ?sm = "\<lparr> sm_ref = constructed st, sm_tunnelId = key, sm_remotePort = port, sm_transport = t1 \<rparr>"
  let ?st = "onConnection t2 (snd (onMessage JSON_parse t1 created st))"
  have "idToSocketManager ?st = Map_set (idToSocketManager st) key ?sm"
    using assms(1) c by (simp add: onMessage_created onConnection_def)
  then have "Map_get (idToSocketManager ?st) key = Some ?sm"
    using assms(5) by (simp add: Map_get_set_same)
  then have "onMessage JSON_parse t2 data ?st = (Fulfilled, ?st \<lparr> trace := trace ?st @ [Send ?sm dmsg] \<rparr>)"
    using assms(6) d by (simp add: onMessage_send)
  then show ?thesis by (simp add: onConnection_def launch_def)
qed

theorem table_shared_by_all_transports_witness:
  "sample_parse created_t1 = Some created_t1_message
   \<and> getProp created_t1_message ''event'' = Inr (Some (JStr ''proxyCreated''))
   \<and> getProp created_t1_message ''tunnelId'' = Inr (Some (JStr ''t1''))
   \<and> getProp created_t1_message ''remotePort'' = Inr (Some (JNum 8080))
   \<and> \<not> isObject (Some (JStr ''t1'') :: int jsval)
   \<and> sample_parse data_t1 = Some data_t1_message
   \<and> getProp data_t1_message ''event'' = Inr (Some (JStr ''data''))
   \<and> getProp data_t1_message ''tunnelId'' = Inr (Some (JStr ''t1''))
   \<and> idToSocketManager (launch :: int state) = []
   \<and> idToSocketManager (onConnection 1 (launch :: int state)) = idToSocketManager (launch :: int state)
   \<and> onMessage sample_parse 1 data_t1
        (onConnection 1 (snd (onMessage sample_parse 0 created_t1 launch)))
       = (Fulfilled,
          \<lparr> idToSocketManager = [(Some (JStr ''t1''), \<lparr> sm_ref = 0, sm_tunnelId = Some (JStr ''t1''), sm_remotePort = Some (JNum 8080), sm_transport = 0 \<rparr>)],
            constructed = 1,
            trace = [LoggerInfo ''adding tunnel subscriber!'', AddSubscriber ''tunnel'',
                     LoggerInfo ''creating connection manager'',
                     NewSocketManager \<lparr> sm_ref = 0, sm_tunnelId = Some (JStr ''t1''), sm_remotePort = Some (JNum 8080), sm_transport = 0 \<rparr>,
                     LoggerInfo ''connection made!'', Subscribe 1,
                     Send \<lparr> sm_ref = 0, sm_tunnelId = Some (JStr ''t1''), sm_remotePort = Some (JNum 8080), sm_transport = 0 \<rparr> data_t1_message] \<rparr>)"
  using table_shared_by_all_transports [where JSON_parse = sample_parse
      and created = created_t1 and cmsg = created_t1_message and key = "Some (JStr ''t1'')"
      and port = "Some (JNum 8080)" and data = data_t1 and dmsg = data_t1_message
      and ?t1.0 = 0 and ?t2.0 = 1 and st = launch]
  by (simp add: sample_eval)

text \<open>
  Two connections: the tunnel \<^verbatim>\<open>t1\<close> is created on transport 0, then transport 1 connects
  and a \<^verbatim>\<open>data\<close> message for \<^verbatim>\<open>t1\<close> arrives on it. It is forwarded to the session of
  transport 0.
\<close>

theorem fresh_table_per_connection_counterexample:
  "onMessage sample_parse 1 data_t1
     (run sample_parse [Connection 0, Message 0 created_t1, Connection 1] launch)
   = (Fulfilled,
      \<lparr> idToSocketManager = [(Some (JStr ''t1''), \<lparr> sm_ref = 0, sm_tunnelId = Some (JStr ''t1''), sm_remotePort = Some (JNum 8080), sm_transport = 0 \<rparr>)],
        constructed = 1,
        trace = [LoggerInfo ''adding tunnel subscriber!'', AddSubscriber ''tunnel'',
                 LoggerInfo ''connection made!'', Subscribe 0,
                 LoggerInfo ''creating connection manager'',
                 NewSocketManager \<lparr> sm_ref = 0, sm_tunnelId = Some (JStr ''t1''), sm_remotePort = Some (JNum 8080), sm_transport = 0 \<rparr>,
                 LoggerInfo ''connection made!'', Subscribe 1,
                 Send \<lparr> sm_ref = 0, sm_tunnelId = Some (JStr ''t1''), sm_remotePort = Some (JNum 8080), sm_transport = 0 \<rparr> data_t1_message] \<rparr>)"
  by (simp add: sample_eval)

text \<open>
  C3. The claim: a failure while handling a message (a payload that does not parse, or a
  \<^verbatim>\<open>connection\<close>, \<^verbatim>\<open>data\<close> or \<^verbatim>\<open>proxyClosed\<close> for an id with no session) is caught and
  reported by the handler, does not end the subscription, and leaves the handling of
  later messages unchanged. The handler has no \<^verbatim>\<open>try\<close> and logs nothing on failure: the
  error rejects the promise of the \<^verbatim>\<open>async\<close> function, which nobody handles.
  What holds: on such a failure the promise is rejected (SyntaxError for a payload that
  does not parse, AssertionError for an unknown tunnel) and the state, trace included,
  is exactly as before. Whether later messages are handled is then up to the host:
  under a host that goes on, the delivery of all inputs is the delivery without the
  failing message; under a host that ends the process on the unhandled rejection, the
  delivery stops at the failing message with that error and no later message is handled.
\<close>

theorem failure_rejects_and_changes_nothing:
  assumes "JSON_parse data = None
     \<or> (JSON_parse data = Some message
        \<and> getProp message ''event'' = Inr (Some (JStr ev))
        \<and> ev \<in> {''connection'', ''data'', ''proxyClosed''}
        \<and> getProp message ''tunnelId'' = Inr key
        \<and> Map_get (idToSocketManager (run JSON_parse earlier st)) key = None)"
  shows "onMessage JSON_parse transport data (run JSON_parse earlier st)
           = (Rejected (if JSON_parse data = None then SyntaxError else AssertionError),
              run JSON_parse earlier st)
    \<and> deliver GoesOn JSON_parse (earlier @ Message transport data # later) st
           = deliver GoesOn JSON_parse (earlier @ later) st
    \<and> deliver Exits JSON_parse (Message transport data # later) (run JSON_parse earlier st)
           = (Some (if JSON_parse data = None then SyntaxError else AssertionError),
              run JSON_parse earlier st)"
proof -
  let ?st = "run JSON_parse earlier st"
  let ?e = "if JSON_parse data = None then SyntaxError else AssertionError"
  have 1: "onMessage JSON_parse transport data ?st = (Rejected ?e, ?st)"
    using assms
  proof
    assume "JSON_parse data = None"
    then show ?thesis by (simp add: onMessage_syntax)
  next
    assume a: "JSON_parse data = Some message
        \<and> getProp message ''event'' = Inr (Some (JStr ev))
        \<and> ev \<in> {''connection'', ''data'', ''proxyClosed''}
        \<and> getProp message ''tunnelId'' = Inr key
        \<and> Map_get (idToSocketManager ?st) key = None"
    then have "message \<noteq> JNull" "field message ''event'' = Some (JStr ev)"
      "field message ''tunnelId'' = key"
      by (auto dest: getProp_field)
    then show ?thesis using a by (auto simp: onMessage_send onMessage_closed)
  qed
  then have "step JSON_parse (Message transport data) ?st = ?st" by simp
  then have 2: "run JSON_parse (earlier @ Message transport data # later) st
           = run JSON_parse (earlier @ later) st"
    by (simp add: run_append)
  have 3: "deliver Exits JSON_parse (Message transport data # later) ?st = (Some ?e, ?st)"
    using 1 by simp
  from 1 2 3 show ?thesis by (simp add: deliver_GoesOn)
qed

theorem failure_rejects_and_changes_nothing_witness:
  "(sample_parse data_t1 = None
      \<or> (sample_parse data_t1 = Some data_t1_message
         \<and> getProp data_t1_message ''event'' = Inr (Some (JStr ''data''))
         \<and> ''data'' \<in> {''connection'', ''data'', ''proxyClosed''}
         \<and> getProp data_t1_message ''tunnelId'' = Inr (Some (JStr ''t1''))
         \<and> Map_get (idToSocketManager (run sample_parse [Message 0 created_t2] launch))
              (Some (JStr ''t1'')) = None))
   \<and> onMessage sample_parse 0 data_t1 (run sample_parse [Message 0 created_t2] launch)
       = (Rejected AssertionError,
          \<lparr> idToSocketManager = [(Some (JStr ''t2''), \<lparr> sm_ref = 0, sm_tunnelId = Some (JStr ''t2''), sm_remotePort = None, sm_transport = 0 \<rparr>)],
            constructed = 1,
            trace = [LoggerInfo ''adding tunnel subscriber!'', AddSubscriber ''tunnel'',
                     LoggerInfo ''creating connection manager'',
                     NewSocketManager \<lparr> sm_ref = 0, sm_tunnelId = Some (JStr ''t2''), sm_remotePort = None, sm_transport = 0 \<rparr>] \<rparr>)
   \<and> deliver GoesOn sample_parse
        ([Message 0 created_t2] @ Message 0 data_t1 # [Message 0 data_t2]) launch
       = (None,
          \<lparr> idToSocketManager = [(Some (JStr ''t2''), \<lparr> sm_ref = 0, sm_tunnelId = Some (JStr ''t2''), sm_remotePort = None, sm_transport = 0 \<rparr>)],
            constructed = 1,
            trace = [LoggerInfo ''adding tunnel subscriber!'', AddSubscriber ''tunnel'',
                     LoggerInfo ''creating connection manager'',
                     NewSocketManager \<lparr> sm_ref = 0, sm_tunnelId = Some (JStr ''t2''), sm_remotePort = None, sm_transport = 0 \<rparr>,
                     Send \<lparr> sm_ref = 0, sm_tunnelId = Some (JStr ''t2''), sm_remotePort = None, sm_transport = 0 \<rparr> data_t2_message] \<rparr>)
   \<and> deliver GoesOn sample_parse ([Message 0 created_t2] @ [Message 0 data_t2]) launch
       = (None,
          \<lparr> idToSocketManager = [(Some (JStr ''t2''), \<lparr> sm_ref = 0, sm_tunnelId = Some (JStr ''t2''), sm_remotePort = None, sm_transport = 0 \<rparr>)],
            constructed = 1,
            trace = [LoggerInfo ''adding tunnel subscriber!'', AddSubscriber ''tunnel'',
                     LoggerInfo ''creating connection manager'',
                     NewSocketManager \<lparr> sm_ref = 0, sm_tunnelId = Some (JStr ''t2''), sm_remotePort = None, sm_transport = 0 \<rparr>,
                     Send \<lparr> sm_ref = 0, sm_tunnelId = Some (JStr ''t2''), sm_remotePort = None, sm_transport = 0 \<rparr> data_t2_message] \<rparr>)
   \<and> deliver Exits sample_parse (Message 0 data_t1 # [Message 0 data_t2])
        (run sample_parse [Message 0 created_t2] launch)
       = (Some AssertionError,
          \<lparr> idToSocketManager = [(Some (JStr ''t2''), \<lparr> sm_ref = 0, sm_tunnelId = Some (JStr ''t2''), sm_remotePort = None, sm_transport = 0 \<rparr>)],
            constructed = 1,
            trace = [LoggerInfo ''adding tunnel subscriber!'', AddSubscriber ''tunnel'',
                     LoggerInfo ''creating connection manager'',
                     NewSocketManager \<lparr> sm_ref = 0, sm_tunnelId = Some (JStr ''t2''), sm_remotePort = None, sm_transport = 0 \<rparr>] \<rparr>)
   \<and> sample_parse ''{event:'' = None
   \<and> onMessage sample_parse 0 ''{event:'' (run sample_parse [Message 0 created_t2] launch)
       = (Rejected SyntaxError, run sample_parse [Message 0 created_t2] launch)
   \<and> deliver GoesOn sample_parse
        ([Message 0 created_t2] @ Message 0 ''{event:'' # [Message 0 data_t2]) launch
       = deliver GoesOn sample_parse ([Message 0 created_t2] @ [Message 0 data_t2]) launch
   \<and> deliver Exits sample_parse (Message 0 ''{event:'' # [Message 0 data_t2])
        (run sample_parse [Message 0 created_t2] launch)
       = (Some SyntaxError, run sample_parse [Message 0 created_t2] launch)"
  using failure_rejects_and_changes_nothing [where JSON_parse = sample_parse
      and data = data_t1 and message = data_t1_message and ev = "''data''" and key = "Some (JStr ''t1'')"
      and earlier = "[Message 0 created_t2]" and st = launch and transport = 0
      and later = "[Message 0 data_t2]"]
    failure_rejects_and_changes_nothing [where JSON_parse = sample_parse
      and data = "''{event:''" and earlier = "[Message 0 created_t2]" and st = launch
      and transport = 0 and later = "[Message 0 data_t2]"]
  by (simp add: sample_eval)

text \<open>
  A \<^verbatim>\<open>data\<close> message for a tunnel that was never created, and a payload that is not
  JSON: each time the handler's promise is rejected and the trace has no new entry.
\<close>

theorem failure_caught_and_reported_counterexample:
  "onMessage sample_parse 0 data_t1 (run sample_parse [Connection 0] launch)
     = (Rejected AssertionError,
        \<lparr> idToSocketManager = [], constructed = 0,
          trace = [LoggerInfo ''adding tunnel subscriber!'', AddSubscriber ''tunnel'',
                   LoggerInfo ''connection made!'', Subscribe 0] \<rparr>)
   \<and> onMessage sample_parse 0 ''{event:'' (run sample_parse [Connection 0] launch)
     = (Rejected SyntaxError,
        \<lparr> idToSocketManager = [], constructed = 0,
          trace = [LoggerInfo ''adding tunnel subscriber!'', AddSubscriber ''tunnel'',
                   LoggerInfo ''connection made!'', Subscribe 0] \<rparr>)"
  by (simp add: sample_eval)

text \<open>
  C4. After any earlier inputs, let a \<^verbatim>\<open>proxyCreated\<close> message for the tunnel id \<open>key\<close>
  (a string, or any other primitive value) arrive, followed by any later inputs. Then
  the messages passed to \<^verbatim>\<open>send\<close> on the session this \<^verbatim>\<open>proxyCreated\<close> constructed are,
  in arrival order, exactly the \<^verbatim>\<open>connection\<close> and \<^verbatim>\<open>data\<close> messages for \<open>key\<close> among the
  later inputs, up to the next \<^verbatim>\<open>proxyCreated\<close> for \<open>key\<close> if there is one (from which on
  the session created for the id is the newer one, and this statement holds of it).
  The inputs need not be well formed, and may arrive on any transport.
\<close>

theorem forwarded_in_arrival_order:
  assumes "JSON_parse data = Some message"
    and "getProp message ''event'' = Inr (Some (JStr ''proxyCreated''))"
    and "getProp message ''tunnelId'' = Inr key"
    and "getProp message ''remotePort'' = Inr port"
    and "\<not> isObject key"
  shows "sentTo \<lparr> sm_ref = constructed (run JSON_parse earlier launch), sm_tunnelId = key,
                  sm_remotePort = port, sm_transport = transport \<rparr>
           (trace (run JSON_parse (earlier @ Message transport data # later) launch))
         = payloadsFor JSON_parse key (takeWhile (\<lambda>i. \<not> creates JSON_parse key i) later)"
proof -
  let ?st0 = "run JSON_parse earlier launch"
  let ?sm = "\<lparr> sm_ref = constructed ?st0, sm_tunnelId = key, sm_remotePort = port,
               sm_transport = transport \<rparr>"
  let ?st1 = "step JSON_parse (Message transport data) ?st0"
  have c: "message \<noteq> JNull" "field message ''event'' = Some (JStr ''proxyCreated'')"
    "field message ''tunnelId'' = key" "field message ''remotePort'' = port"
    using assms(2,3,4) by (simp_all add: getProp_field)
  have wf0: "wf_state ?st0" by (simp add: wf_run wf_launch)
  then have wf1: "wf_state ?st1" by (rule wf_step)
  have st1: "?st1 = ?st0 \<lparr> idToSocketManager := Map_set (idToSocketManager ?st0) key ?sm,
           constructed := Suc (constructed ?st0),
           trace := trace ?st0 @ [LoggerInfo ''creating connection manager'', NewSocketManager ?sm] \<rparr>"
    using assms(1) c by (simp add: onMessage_created)
  have reg: "Map_get (idToSocketManager ?st1) key = Some ?sm"
    unfolding st1 using assms(5) by (simp add: Map_get_set_same)
  have "sentTo ?sm (trace ?st0) = []" using wf0 by (rule sentTo_fresh) simp
  then have none: "sentTo ?sm (trace ?st1) = []" unfolding st1 by (simp add: sentTo_append)
  have "run JSON_parse (earlier @ Message transport data # later) launch = run JSON_parse later ?st1"
    by (simp add: run_append)
  then show ?thesis
    using sent_run_registered[OF wf1 reg, of JSON_parse later] none by simp
qed

theorem forwarded_in_arrival_order_witness:
  "sample_parse created_t1 = Some created_t1_message
   \<and> getProp created_t1_message ''event'' = Inr (Some (JStr ''proxyCreated''))
   \<and> getProp created_t1_message ''tunnelId'' = Inr (Some (JStr ''t1''))
   \<and> getProp created_t1_message ''remotePort'' = Inr (Some (JNum 8080))
   \<and> \<not> isObject (Some (JStr ''t1'') :: int jsval)
   \<and> constructed (run sample_parse [Connection 0] launch) = 0
   \<and> payloadsFor sample_parse (Some (JStr ''t1''))
        (takeWhile (\<lambda>i. \<not> creates sample_parse (Some (JStr ''t1'')) i)
           [Message 0 data_t1, Message 0 data_t2, Message 0 closed_t1, Message 1 connection_t1,
            Message 0 recreated_t1, Message 0 data_t1])
       = [data_t1_message, connection_t1_message]
   \<and> sentTo \<lparr> sm_ref = 0, sm_tunnelId = Some (JStr ''t1''), sm_remotePort = Some (JNum 8080), sm_transport = 0 \<rparr>
        (trace (run sample_parse
           ([Connection 0] @ Message 0 created_t1 #
            [Message 0 data_t1, Message 0 data_t2, Message 0 closed_t1, Message 1 connection_t1,
             Message 0 recreated_t1, Message 0 data_t1]) launch))
       = [data_t1_message, connection_t1_message]"
  using forwarded_in_arrival_order [where JSON_parse = sample_parse
      and data = created_t1 and message = created_t1_message and key = "Some (JStr ''t1'')"
      and port = "Some (JNum 8080)" and earlier = "[Connection 0]" and transport = 0
      and later = "[Message 0 data_t1, Message 0 data_t2, Message 0 closed_t1,
                    Message 1 connection_t1, Message 0 recreated_t1, Message 0 data_t1]"]
  by (simp add: sample_eval)

text \<open>
  C5. In every state, a \<^verbatim>\<open>proxyCreated\<close> message constructs a session from
  \<^verbatim>\<open>(tunnelId, remotePort, transport)\<close> and stores it under the tunnel id, whatever was
  stored there; the only effects are the log line and the construction, so \<^verbatim>\<open>close()\<close>
  is called on no session. With a string (or other primitive) as tunnel id, the lookup
  of the id then gives the new session, and after any inputs with no \<^verbatim>\<open>proxyCreated\<close>
  for the id, a \<^verbatim>\<open>data\<close> message for the id is sent to the new session and nowhere else.
\<close>

theorem proxyCreated_overwrites:
  fixes st :: "'n state" and key port :: "'n jsval" and transport :: transport
  defines "sm \<equiv> \<lparr> sm_ref = constructed st, sm_tunnelId = key, sm_remotePort = port,
                   sm_transport = transport \<rparr>"
  defines "st' \<equiv> st \<lparr> idToSocketManager := Map_set (idToSocketManager st) key sm,
                      constructed := Suc (constructed st),
                      trace := trace st @ [LoggerInfo ''creating connection manager'',
                                           NewSocketManager sm] \<rparr>"
  assumes "JSON_parse data = Some message"
    and "getProp message ''event'' = Inr (Some (JStr ''proxyCreated''))"
    and "getProp message ''tunnelId'' = Inr key"
    and "getProp message ''remotePort'' = Inr port"
    and "\<not> isObject key"
    and "\<forall>i \<in> set inputs. \<not> creates JSON_parse key i"
    and "JSON_parse data' = Some message'"
    and "getProp message' ''event'' = Inr (Some (JStr ''data''))"
    and "getProp message' ''tunnelId'' = Inr key"
  shows "onMessage JSON_parse transport data st = (Fulfilled, st')
    \<and> Map_get (idToSocketManager st') key = Some sm
    \<and> onMessage JSON_parse transport' data' (run JSON_parse inputs st')
        = (Fulfilled, (run JSON_parse inputs st')
                        \<lparr> trace := trace (run JSON_parse inputs st') @ [Send sm message'] \<rparr>)"
proof -
  have c: "message \<noteq> JNull" "field message ''event'' = Some (JStr ''proxyCreated'')"
    "field message ''tunnelId'' = key" "field message ''remotePort'' = port"
    using assms(4,5,6) by (simp_all add: getProp_field)
  have d: "message' \<noteq> JNull" "field message' ''event'' = Some (JStr ''data'')"
    "field message' ''tunnelId'' = key"
    using assms(10,11) by (simp_all add: getProp_field)
  have 1: "onMessage JSON_parse transport data st = (Fulfilled, st')"
    using assms(3) c by (simp add: onMessage_created st'_def sm_def)
  have 2: "Map_get (idToSocketManager st') key = Some sm"
    using assms(7) by (simp add: st'_def Map_get_set_same)
  have "Map_get (idToSocketManager (run JSON_parse inputs st')) key = Some sm"
    using get_run_no_create[OF assms(8), of st'] 2 by simp
  then have 3: "onMessage JSON_parse transport' data' (run JSON_parse inputs st')
        = (Fulfilled, (run JSON_parse inputs st')
                        \<lparr> trace := trace (run JSON_parse inputs st') @ [Send sm message'] \<rparr>)"
    using assms(9) d by (simp add: onMessage_send)
  from 1 2 3 show ?thesis by simp
qed

theorem proxyCreated_overwrites_witness:
  "sample_parse recreated_t1 = Some recreated_t1_message
   \<and> getProp recreated_t1_message ''event'' = Inr (Some (JStr ''proxyCreated''))
   \<and> getProp recreated_t1_message ''tunnelId'' = Inr (Some (JStr ''t1''))
   \<and> getProp recreated_t1_message ''remotePort'' = Inr (Some (JNum 9090))
   \<and> \<not> isObject (Some (JStr ''t1'') :: int jsval)
   \<and> \<not> creates sample_parse (Some (JStr ''t1'')) (Message 0 closed_t1)
   \<and> \<not> creates sample_parse (Some (JStr ''t1'')) (Message 0 created_t2)
   \<and> sample_parse data_t1 = Some data_t1_message
   \<and> getProp data_t1_message ''event'' = Inr (Some (JStr ''data''))
   \<and> getProp data_t1_message ''tunnelId'' = Inr (Some (JStr ''t1''))
   \<and> onMessage sample_parse 0 recreated_t1 (run sample_parse [Message 0 created_t1] launch)
       = (Fulfilled,
          \<lparr> idToSocketManager = [(Some (JStr ''t1''), \<lparr> sm_ref = 1, sm_tunnelId = Some (JStr ''t1''), sm_remotePort = Some (JNum 9090), sm_transport = 0 \<rparr>)],
            constructed = 2,
            trace = [LoggerInfo ''adding tunnel subscriber!'', AddSubscriber ''tunnel'',
                     LoggerInfo ''creating connection manager'',
                     NewSocketManager \<lparr> sm_ref = 0, sm_tunnelId = Some (JStr ''t1''), sm_remotePort = Some (JNum 8080), sm_transport = 0 \<rparr>,
                     LoggerInfo ''creating connection manager'',
                     NewSocketManager \<lparr> sm_ref = 1, sm_tunnelId = Some (JStr ''t1''), sm_remotePort = Some (JNum 9090), sm_transport = 0 \<rparr>] \<rparr>)
   \<and> trace (snd (onMessage sample_parse 0 data_t1
        (run sample_parse [Message 0 created_t1, Message 0 recreated_t1, Message 0 closed_t1,
                           Message 0 created_t2] launch)))
       = [LoggerInfo ''adding tunnel subscriber!'', AddSubscriber ''tunnel'',
          LoggerInfo ''creating connection manager'',
          NewSocketManager \<lparr> sm_ref = 0, sm_tunnelId = Some (JStr ''t1''), sm_remotePort = Some (JNum 8080), sm_transport = 0 \<rparr>,
          LoggerInfo ''creating connection manager'',
          NewSocketManager \<lparr> sm_ref = 1, sm_tunnelId = Some (JStr ''t1''), sm_remotePort = Some (JNum 9090), sm_transport = 0 \<rparr>,
          Close \<lparr> sm_ref = 1, sm_tunnelId = Some (JStr ''t1''), sm_remotePort = Some (JNum 9090), sm_transport = 0 \<rparr>,
          LoggerInfo ''creating connection manager'',
          NewSocketManager \<lparr> sm_ref = 2, sm_tunnelId = Some (JStr ''t2''), sm_remotePort = None, sm_transport = 0 \<rparr>,
          Send \<lparr> sm_ref = 1, sm_tunnelId = Some (JStr ''t1''), sm_remotePort = Some (JNum 9090), sm_transport = 0 \<rparr> data_t1_message]"
  using proxyCreated_overwrites [where JSON_parse = sample_parse
      and data = recreated_t1 and message = recreated_t1_message and key = "Some (JStr ''t1'')"
      and port = "Some (JNum 9090)" and transport = 0
      and st = "run sample_parse [Message 0 created_t1] launch"
      and inputs = "[Message 0 closed_t1, Message 0 created_t2]"
      and data' = data_t1 and message' = data_t1_message and transport' = 0]
  by (simp add: sample_eval)

text \<open>
  C6. After any inputs among which there is no \<^verbatim>\<open>proxyCreated\<close> for the tunnel id, a
  \<^verbatim>\<open>connection\<close>, \<^verbatim>\<open>data\<close> or \<^verbatim>\<open>proxyClosed\<close> message for that id fails with the
  AssertionError of \<^verbatim>\<open>invariant\<close> (the unknown tunnel failure) and leaves the state
  as it was: no session is constructed, and nothing is sent or closed.
\<close>

theorem never_created_is_unknown_tunnel:
  assumes "\<forall>i \<in> set inputs. \<not> creates JSON_parse key i"
    and "JSON_parse data = Some message"
    and "getProp message ''event'' = Inr (Some (JStr ev))"
    and "ev \<in> {''connection'', ''data'', ''proxyClosed''}"
    and "getProp message ''tunnelId'' = Inr key"
  shows "onMessage JSON_parse transport data (run JSON_parse inputs launch)
           = (Rejected AssertionError, run JSON_parse inputs launch)"
proof -
  have "Map_get (idToSocketManager (run JSON_parse inputs launch)) key = None"
    using get_run_no_create[OF assms(1), of launch] by (simp add: launch_def)
  moreover have "message \<noteq> JNull" "field message ''event'' = Some (JStr ev)"
    "field message ''tunnelId'' = key"
    using assms(3,5) by (simp_all add: getProp_field)
  ultimately show ?thesis
    using assms(2,4) by (auto simp: onMessage_send onMessage_closed)
qed

theorem never_created_is_unknown_tunnel_witness:
  "\<not> creates sample_parse (Some (JStr ''t1'')) (Connection 0)
   \<and> \<not> creates sample_parse (Some (JStr ''t1'')) (Message 0 created_t2)
   \<and> sample_parse closed_t1 = Some closed_t1_message
   \<and> getProp closed_t1_message ''event'' = Inr (Some (JStr ''proxyClosed''))
   \<and> ''proxyClosed'' \<in> {''connection'', ''data'', ''proxyClosed''}
   \<and> getProp closed_t1_message ''tunnelId'' = Inr (Some (JStr ''t1''))
   \<and> onMessage sample_parse 0 closed_t1
        (run sample_parse [Connection 0, Message 0 created_t2] launch)
       = (Rejected AssertionError,
          \<lparr> idToSocketManager =
              [(Some (JStr ''t2''),
                \<lparr> sm_ref = 0, sm_tunnelId = Some (JStr ''t2''), sm_remotePort = None, sm_transport = 0 \<rparr>)],
            constructed = 1,
            trace = [LoggerInfo ''adding tunnel subscriber!'', AddSubscriber ''tunnel'',
                     LoggerInfo ''connection made!'', Subscribe 0,
                     LoggerInfo ''creating connection manager'',
                     NewSocketManager
                       \<lparr> sm_ref = 0, sm_tunnelId = Some (JStr ''t2''), sm_remotePort = None, sm_transport = 0 \<rparr>] \<rparr>)"
  using never_created_is_unknown_tunnel [of "[Connection 0, Message 0 created_t2]"
      sample_parse "Some (JStr ''t1'')" closed_t1 closed_t1_message "''proxyClosed''" 0]
  by (simp add: sample_eval)

text \<open>
  C7. In every state reached from \<^verbatim>\<open>launch\<close> and for every payload, each call of
  \<^verbatim>\<open>send\<close> or \<^verbatim>\<open>close\<close> that handling the payload makes is on a session \<open>s\<close> such that
  the payload parses to a message, \<open>s\<close> is the session registered under that message's
  own tunnel id \<open>a\<close>, and \<open>s\<close> is not the session registered under any other id \<open>b\<close>.
  (A payload that does not parse, or parses to \<^verbatim>\<open>null\<close>, makes no call.)
\<close>

theorem dispatch_only_own_tunnel:
  "\<forall>e \<in> set (emitted (run JSON_parse inputs launch)
                 (snd (onMessage JSON_parse transport data (run JSON_parse inputs launch)))).
     \<forall>s. callee e = Some s \<longrightarrow>
       (\<exists>message a.
          JSON_parse data = Some message
          \<and> getProp message ''tunnelId'' = Inr a
          \<and> Map_get (idToSocketManager (run JSON_parse inputs launch)) a = Some s
          \<and> (\<forall>b sb. b \<noteq> a
                \<longrightarrow> Map_get (idToSocketManager (run JSON_parse inputs launch)) b = Some sb
                \<longrightarrow> s \<noteq> sb))"
proof -
  let ?st = "run JSON_parse inputs launch"
  have wf: "wf_state ?st" by (simp add: wf_run wf_launch)
  then have dist: "distinct (map snd (idToSocketManager ?st))" by (simp add: wf_state_def)
  have own: "\<exists>message a.
          JSON_parse data = Some message
          \<and> getProp message ''tunnelId'' = Inr a
          \<and> Map_get (idToSocketManager ?st) a = Some s
          \<and> (\<forall>b sb. b \<noteq> a \<longrightarrow> Map_get (idToSocketManager ?st) b = Some sb \<longrightarrow> s \<noteq> sb)"
    if p: "JSON_parse data = Some m" and nn: "m \<noteq> JNull"
      and reg: "Map_get (idToSocketManager ?st) (field m ''tunnelId'') = Some s" for m s
  proof (intro exI conjI allI impI)
    show "JSON_parse data = Some m" by (rule p)
    show "getProp m ''tunnelId'' = Inr (field m ''tunnelId'')" using nn by (rule getProp_prop)
    show "Map_get (idToSocketManager ?st) (field m ''tunnelId'') = Some s" by (rule reg)
  next
    fix b sb
    assume "b \<noteq> field m ''tunnelId''" and "Map_get (idToSocketManager ?st) b = Some sb"
    then show "s \<noteq> sb" using Map_get_distinct[OF dist reg, of b sb] by auto
  qed
  show ?thesis
  proof (cases rule: onMessage_cases[of JSON_parse data])
    case malformed
    then show ?thesis by (simp add: onMessage_syntax)
  next
    case nullish
    then show ?thesis by (simp add: onMessage_null)
  next
    case (created m)
    then show ?thesis by (simp add: onMessage_created emitted_def)
  next
    case (send m)
    show ?thesis
    proof (cases "Map_get (idToSocketManager ?st) (field m ''tunnelId'')")
      case None
      then show ?thesis using send by (simp add: onMessage_send)
    next
      case (Some s)
      from own[OF send(1,2) Some] show ?thesis using send Some by (simp add: onMessage_send)
    qed
  next
    case (closed m)
    show ?thesis
    proof (cases "Map_get (idToSocketManager ?st) (field m ''tunnelId'')")
      case None
      then show ?thesis using closed by (simp add: onMessage_closed)
    next
      case (Some s)
      from own[OF closed(1,2) Some] show ?thesis using closed Some by (simp add: onMessage_closed)
    qed
  next
    case (other m)
    then show ?thesis by (simp add: onMessage_other)
  qed
qed

theorem dispatch_only_own_tunnel_witness:
  "emitted (run sample_parse [Message 0 created_t1] launch)
        (snd (onMessage sample_parse 0 data_t1 (run sample_parse [Message 0 created_t1] launch)))
       = [Send \<lparr> sm_ref = 0, sm_tunnelId = Some (JStr ''t1''), sm_remotePort = Some (JNum 8080), sm_transport = 0 \<rparr> data_t1_message]
   \<and> emitted (run sample_parse [Message 0 created_t1, Message 0 created_t2] launch)
        (snd (onMessage sample_parse 0 closed_t1
               (run sample_parse [Message 0 created_t1, Message 0 created_t2] launch)))
       = [Close \<lparr> sm_ref = 0, sm_tunnelId = Some (JStr ''t1''), sm_remotePort = Some (JNum 8080), sm_transport = 0 \<rparr>]
   \<and> sample_parse data_t1 = Some data_t1_message
   \<and> getProp data_t1_message ''tunnelId'' = Inr (Some (JStr ''t1''))
   \<and> sample_parse closed_t1 = Some closed_t1_message
   \<and> getProp closed_t1_message ''tunnelId'' = Inr (Some (JStr ''t1''))
   \<and> Map_get (idToSocketManager (run sample_parse [Message 0 created_t1] launch)) (Some (JStr ''t1''))
       = Some \<lparr> sm_ref = 0, sm_tunnelId = Some (JStr ''t1''), sm_remotePort = Some (JNum 8080), sm_transport = 0 \<rparr>
   \<and> Map_get (idToSocketManager (run sample_parse [Message 0 created_t1, Message 0 created_t2] launch))
        (Some (JStr ''t1'')) = Some \<lparr> sm_ref = 0, sm_tunnelId = Some (JStr ''t1''), sm_remotePort = Some (JNum 8080), sm_transport = 0 \<rparr>
   \<and> Map_get (idToSocketManager (run sample_parse [Message 0 created_t1, Message 0 created_t2] launch))
        (Some (JStr ''t2'')) = Some \<lparr> sm_ref = 1, sm_tunnelId = Some (JStr ''t2''), sm_remotePort = None, sm_transport = 0 \<rparr>
   \<and> (Some (JStr ''t2'') :: int jsval) \<noteq> Some (JStr ''t1'')
   \<and> \<lparr> sm_ref = 0, sm_tunnelId = Some (JStr ''t1''), sm_remotePort = Some (JNum 8080), sm_transport = 0 \<rparr>
       \<noteq> (\<lparr> sm_ref = 1, sm_tunnelId = Some (JStr ''t2''), sm_remotePort = None, sm_transport = 0 \<rparr> :: int SocketManager)"
  using dispatch_only_own_tunnel [where JSON_parse = sample_parse
      and inputs = "[Message 0 created_t1]" and transport = 0 and data = data_t1]
    dispatch_only_own_tunnel [where JSON_parse = sample_parse
      and inputs = "[Message 0 created_t1, Message 0 created_t2]" and transport = 0
      and data = closed_t1]
  by (simp add: sample_eval emitted_def)

text \<open>
  C8. A message that parses to a value other than \<^verbatim>\<open>null\<close> and whose \<^verbatim>\<open>event\<close> is none
  of \<^verbatim>\<open>proxyCreated\<close>, \<^verbatim>\<open>connection\<close>, \<^verbatim>\<open>data\<close>, \<^verbatim>\<open>proxyClosed\<close> (a different string, a
  value of another type, or missing) is handled with success and changes nothing: the
  Map, the number of sessions constructed and the trace are as before.
\<close>

theorem unrecognized_event_ignored:
  assumes "JSON_parse data = Some message"
    and "getProp message ''event'' = Inr event"
    and "event \<notin> {Some (JStr ''proxyCreated''), Some (JStr ''connection''),
                    Some (JStr ''data''), Some (JStr ''proxyClosed'')}"
  shows "onMessage JSON_parse transport data st = (Fulfilled, st)"
proof -
  from assms(2) have "message \<noteq> JNull" and "field message ''event'' = event"
    by (simp_all add: getProp_field)
  then show ?thesis using assms(1,3) by (simp add: onMessage_other)
qed

theorem unrecognized_event_ignored_witness:
  "sample_parse ping_t1 = Some ping_t1_message
   \<and> getProp ping_t1_message ''event'' = Inr (Some (JStr ''ping''))
   \<and> Some (JStr ''ping'') \<notin> {Some (JStr ''proxyCreated''), Some (JStr ''connection''),
                              Some (JStr ''data''), Some (JStr ''proxyClosed'') :: int jsval}
   \<and> onMessage sample_parse 0 ping_t1 (run sample_parse [Message 0 created_t1] launch)
       = (Fulfilled,
          \<lparr> idToSocketManager = [(Some (JStr ''t1''), \<lparr> sm_ref = 0, sm_tunnelId = Some (JStr ''t1''), sm_remotePort = Some (JNum 8080), sm_transport = 0 \<rparr>)],
            constructed = 1,
            trace = [LoggerInfo ''adding tunnel subscriber!'', AddSubscriber ''tunnel'',
                     LoggerInfo ''creating connection manager'',
                     NewSocketManager \<lparr> sm_ref = 0, sm_tunnelId = Some (JStr ''t1''), sm_remotePort = Some (JNum 8080), sm_transport = 0 \<rparr>] \<rparr>)"
  using unrecognized_event_ignored [of sample_parse ping_t1 ping_t1_message
      "Some (JStr ''ping'')" 0 "run sample_parse [Message 0 created_t1] launch"]
  by (simp add: sample_eval)

text \<open>
  C9. A payload that \<^verbatim>\<open>JSON.parse\<close> rejects fails the handler with the SyntaxError, in
  every state and whatever the Map holds, and the state is exactly as before: the Map
  is unchanged, no session is constructed, and nothing is sent or closed.
\<close>

theorem parse_failure_changes_nothing:
  assumes "JSON_parse data = None"
  shows "onMessage JSON_parse transport data st = (Rejected SyntaxError, st)"
  using assms by (simp add: onMessage_def)

theorem parse_failure_changes_nothing_witness:
  "sample_parse ''{event:'' = None
   \<and> onMessage sample_parse 0 ''{event:'' (run sample_parse [Message 0 created_t1] launch)
       = (Rejected SyntaxError,
          \<lparr> idToSocketManager = [(Some (JStr ''t1''), \<lparr> sm_ref = 0, sm_tunnelId = Some (JStr ''t1''), sm_remotePort = Some (JNum 8080), sm_transport = 0 \<rparr>)],
            constructed = 1,
            trace = [LoggerInfo ''adding tunnel subscriber!'', AddSubscriber ''tunnel'',
                     LoggerInfo ''creating connection manager'',
                     NewSocketManager \<lparr> sm_ref = 0, sm_tunnelId = Some (JStr ''t1''), sm_remotePort = Some (JNum 8080), sm_transport = 0 \<rparr>] \<rparr>)"
  using parse_failure_changes_nothing [of sample_parse "''{event:''" 0
      "run sample_parse [Message 0 created_t1] launch"]
  by (simp add: sample_eval)

text \<open>
  C10. A message that parses to an object whose \<^verbatim>\<open>event\<close> is \<^verbatim>\<open>proxyCreated\<close> always
  constructs a session and stores it in the Map, with no check of the payload: the
  constructor receives \<^verbatim>\<open>message.remotePort\<close> as it is, \<^verbatim>\<open>undefined\<close> (here \<open>None\<close>)
  when the property is absent. The same goes for \<^verbatim>\<open>tunnelId\<close>.
\<close>

theorem proxyCreated_without_validation:
  assumes "JSON_parse data = Some (JObj props)"
    and "map_of props ''event'' = Some (JStr ''proxyCreated'')"
  shows "onMessage JSON_parse transport data st =
     (Fulfilled,
      st \<lparr> idToSocketManager := Map_set (idToSocketManager st) (map_of props ''tunnelId'')
               \<lparr> sm_ref = constructed st, sm_tunnelId = map_of props ''tunnelId'',
                 sm_remotePort = map_of props ''remotePort'', sm_transport = transport \<rparr>,
           constructed := Suc (constructed st),
           trace := trace st @ [LoggerInfo ''creating connection manager'',
                     NewSocketManager \<lparr> sm_ref = constructed st, sm_tunnelId = map_of props ''tunnelId'',
                       sm_remotePort = map_of props ''remotePort'', sm_transport = transport \<rparr>] \<rparr>)
   \<and> (map_of props ''tunnelId'',
        \<lparr> sm_ref = constructed st, sm_tunnelId = map_of props ''tunnelId'',
          sm_remotePort = map_of props ''remotePort'', sm_transport = transport \<rparr>)
       \<in> set (idToSocketManager (snd (onMessage JSON_parse transport data st)))"
proof -
  have f: "field (JObj props) name = map_of props name" for name
    by (simp add: field_def)
  have "onMessage JSON_parse transport data st =
     (Fulfilled,
      st \<lparr> idToSocketManager := Map_set (idToSocketManager st) (field (JObj props) ''tunnelId'')
               \<lparr> sm_ref = constructed st, sm_tunnelId = field (JObj props) ''tunnelId'',
                 sm_remotePort = field (JObj props) ''remotePort'', sm_transport = transport \<rparr>,
           constructed := Suc (constructed st),
           trace := trace st @ [LoggerInfo ''creating connection manager'',
                     NewSocketManager \<lparr> sm_ref = constructed st,
                       sm_tunnelId = field (JObj props) ''tunnelId'',
                       sm_remotePort = field (JObj props) ''remotePort'',
                       sm_transport = transport \<rparr>] \<rparr>)"
    using assms by (intro onMessage_created) (simp_all add: f)
  then show ?thesis by (simp add: f Map_set_mem)
qed

theorem proxyCreated_without_validation_witness:
  "sample_parse created_t2 = Some (JObj [(''event'', JStr ''proxyCreated''), (''tunnelId'', JStr ''t2'')])
   \<and> map_of [(''event'', JStr ''proxyCreated''), (''tunnelId'', JStr ''t2'' :: int json)] ''event''
       = Some (JStr ''proxyCreated'')
   \<and> map_of [(''event'', JStr ''proxyCreated''), (''tunnelId'', JStr ''t2'' :: int json)] ''remotePort''
       = None
   \<and> onMessage sample_parse 3 created_t2 launch =
     (Fulfilled,
      \<lparr> idToSocketManager =
          [(Some (JStr ''t2''),
            \<lparr> sm_ref = 0, sm_tunnelId = Some (JStr ''t2''), sm_remotePort = None, sm_transport = 3 \<rparr>)],
        constructed = 1,
        trace = [LoggerInfo ''adding tunnel subscriber!'', AddSubscriber ''tunnel'',
                 LoggerInfo ''creating connection manager'',
                 NewSocketManager
                   \<lparr> sm_ref = 0, sm_tunnelId = Some (JStr ''t2''), sm_remotePort = None, sm_transport = 3 \<rparr>] \<rparr>)"
  using proxyCreated_without_validation [of sample_parse created_t2
      "[(''event'', JStr ''proxyCreated''), (''tunnelId'', JStr ''t2'')]" 3 launch]
  by (simp add: sample_eval)

end
